theory Spec2Isabelle
  imports Complex_Main "HOL-Library.List_Lexorder" "HOL-Library.Char_ord" "HOL-Library.AList"
begin

section \<open>Wind forecast service: data model\<close>

text \<open>
  The service of \<^verbatim>\<open>app.py\<close>: one POST route that validates two floats, fetches an
  hourly forecast through a background event loop, truncates and normalises it and
  returns it as JSON, and a chart renderer that the route does not call.

  Python floats are modelled as the \<^typ>\<open>real\<close> numbers they denote (NaN and infinities
  are left out); where the program computes with them, in the renderer, the rounded
  operations are parameters. Python integers are \<^typ>\<open>int\<close>.
\<close>

subsection \<open>Python values\<close>

text \<open>
  A \<^verbatim>\<open>datetime\<close> with its fields; \<open>utcoffset\<close> is \<open>None\<close> for a naive value and the
  offset in seconds east of UTC for an aware one.
\<close>

record datetime =
  year :: nat
  month :: nat
  day :: nat
  hour :: nat
  minute :: nat
  second :: nat
  microsecond :: nat
  utcoffset :: "int option"

text \<open>The fields of a \<^verbatim>\<open>datetime\<close> from the year down to the microsecond.\<close>

definition dt_key :: "datetime \<Rightarrow> nat list" where
  "dt_key d = [year d, month d, day d, hour d, minute d, second d, microsecond d]"

text \<open>
  An element of the remote \<^verbatim>\<open>hourly.time\<close> array: either an instance of \<^verbatim>\<open>datetime\<close>
  or any other value, of which the code only uses \<^verbatim>\<open>str(t)\<close>.
\<close>

datatype raw_time = Structured datetime | Unstructured string

text \<open>An exception of class \<^verbatim>\<open>Exception\<close>: its class name and the text \<^verbatim>\<open>str(e)\<close>.\<close>

datatype exn = Exn (exc_class: string) (exc_text: string)

text \<open>A parsed JSON value, as \<^verbatim>\<open>json.loads\<close> and \<^verbatim>\<open>jsonify\<close> see it.\<close>

datatype json =
  JNull
| JBool bool
| JInt int
| JFloat real
| JStr string
| JArr "json list"
| JObj "(string \<times> json) list"

text \<open>
  A coroutine as the event loop observes it: it finishes after some seconds with a
  value or an exception, or it never finishes.
\<close>

datatype 'a coro = Finishes real "exn + 'a" | Never

subsection \<open>The remote forecast and the series built from it\<close>

record hourly =
  time :: "raw_time list"
  wind_direction_10m :: "real list"
  wind_speed_10m :: "real list"
  wind_gusts_10m :: "real list"

record series =
  time_dt :: "datetime list"
  wind_dir :: "real list"
  wind_speed :: "real list"
  wind_gust :: "real list"

text \<open>
  What the program takes from outside itself: the standard library's
  \<^verbatim>\<open>datetime.fromisoformat\<close> (\<open>None\<close> when it raises), the value of
  \<^verbatim>\<open>datetime.fromtimestamp(0)\<close> (the Unix epoch as a naive \<^verbatim>\<open>datetime\<close> in the machine's
  local time zone), \<^verbatim>\<open>datetime.isoformat\<close>, \<^verbatim>\<open>float\<close> on a string and on an integer
  (\<open>None\<close> when it raises: an unparsable string, an integer too large for a float),
  and the remote call \<^verbatim>\<open>open_meteo.forecast\<close> for a latitude and a longitude.
\<close>

record env =
  fromisoformat :: "string \<Rightarrow> datetime option"
  fromtimestamp0 :: datetime
  isoformat :: "datetime \<Rightarrow> string"
  float_of_str :: "string \<Rightarrow> real option"
  float_of_int :: "int \<Rightarrow> real option"
  forecast :: "real \<Rightarrow> real \<Rightarrow> hourly coro"

section \<open>Forecast fetch and normalisation\<close>

text \<open>\<^verbatim>\<open>s.replace(old, new)\<close> for a one-character \<open>old\<close>: every occurrence is replaced.\<close>

fun replace :: "char \<Rightarrow> string \<Rightarrow> string \<Rightarrow> string" where
  "replace old new [] = []"
| "replace old new (c # cs) =
     (if c = old then new @ replace old new cs else c # replace old new cs)"

text \<open>
  The body of the loop over \<^verbatim>\<open>hourly_time\<close>: a \<^verbatim>\<open>datetime\<close> is appended as it is,
  anything else goes through \<^verbatim>\<open>fromisoformat(str(t).replace("Z", "+00:00"))\<close>, and
  \<^verbatim>\<open>except Exception\<close> appends \<^verbatim>\<open>datetime.fromtimestamp(0)\<close>.
\<close>

definition normalize_time :: "env \<Rightarrow> raw_time \<Rightarrow> datetime" where
  "normalize_time E t =
     (case t of
        Structured d \<Rightarrow> d
      | Unstructured s \<Rightarrow>
          (case fromisoformat E (replace CHR ''Z'' ''+00:00'' s) of
             Some d \<Rightarrow> d
           | None \<Rightarrow> fromtimestamp0 E))"

fun normalize_times :: "env \<Rightarrow> raw_time list \<Rightarrow> datetime list" where
  "normalize_times E [] = []"
| "normalize_times E (t # ts) = normalize_time E t # normalize_times E ts"

text \<open>
  \<^verbatim>\<open>max(1, int(hours))\<close> and the slice \<^verbatim>\<open>xs[0:n]\<close> (a negative bound counts from the
  end, as Python's slices do; a bound past the end is not an error).
\<close>

definition nhours :: "int \<Rightarrow> int" where
  "nhours hours = max 1 hours"

definition slice0 :: "int \<Rightarrow> 'a list \<Rightarrow> 'a list" where
  "slice0 n xs =
     (if n < 0 then take (nat (int (length xs) + n)) xs else take (nat n) xs)"

text \<open>What \<^verbatim>\<open>fetch_openmeteo\<close> does with the forecast once the remote call has returned.\<close>

definition build_series :: "env \<Rightarrow> hourly \<Rightarrow> int \<Rightarrow> series" where
  "build_series E h hours =
     (let n = nhours hours;
          hourly_time = slice0 n (time h);
          wd = slice0 n (wind_direction_10m h);
          ws = slice0 n (wind_speed_10m h);
          wg = slice0 n (wind_gusts_10m h)
      in \<lparr>time_dt = normalize_times E hourly_time,
          wind_dir = wd, wind_speed = ws, wind_gust = wg\<rparr>)"

text \<open>
  The coroutine \<^verbatim>\<open>fetch_openmeteo(lat, lon, hours)\<close>: it awaits the remote call, and an
  exception of the remote call propagates.
\<close>

definition fetch_openmeteo :: "env \<Rightarrow> real \<Rightarrow> real \<Rightarrow> int \<Rightarrow> series coro" where
  "fetch_openmeteo E lat lon hours =
     (case forecast E lat lon of
        Never \<Rightarrow> Never
      | Finishes d (Inl e) \<Rightarrow> Finishes d (Inl e)
      | Finishes d (Inr h) \<Rightarrow> Finishes d (Inr (build_series E h hours)))"

section \<open>Background event loop\<close>

text \<open>
  \<^verbatim>\<open>_LoopRunner.run(coro, timeout)\<close> submits the coroutine and blocks on
  \<^verbatim>\<open>fut.result(timeout=timeout)\<close>: the coroutine's value, its exception, or a
  \<^verbatim>\<open>TimeoutError\<close> (whose text is empty) once the timeout has passed. Without a timeout
  a coroutine that never finishes blocks the caller for ever: the result \<open>None\<close>.
\<close>

definition timeout_error :: exn where
  "timeout_error = Exn ''TimeoutError'' []"

definition run :: "'a coro \<Rightarrow> real option \<Rightarrow> (exn + 'a) option" where
  "run coro timeout =
     (case coro of
        Never \<Rightarrow> (case timeout of None \<Rightarrow> None | Some T \<Rightarrow> Some (Inl timeout_error))
      | Finishes d r \<Rightarrow>
          (case timeout of
             None \<Rightarrow> Some r
           | Some T \<Rightarrow> if d \<le> T then Some r else Some (Inl timeout_error)))"

section \<open>HTTP surface\<close>

datatype py_error = BadRequest | KeyError | TypeError | ValueError | OverflowError

record response =
  status :: nat
  body :: json

text \<open>
  \<^verbatim>\<open>request.get_json(force=True)\<close>: the request body is \<open>None\<close> when it is not
  syntactically valid JSON, and the framework raises \<^verbatim>\<open>BadRequest\<close>.
\<close>

definition get_json :: "json option \<Rightarrow> py_error + json" where
  "get_json b = (case b of None \<Rightarrow> Inl BadRequest | Some payload \<Rightarrow> Inr payload)"

text \<open>\<^verbatim>\<open>payload[key]\<close> with a string key: only a dict can be indexed by it.\<close>

fun subscript :: "json \<Rightarrow> string \<Rightarrow> py_error + json" where
  "subscript (JObj kvs) k = (case map_of kvs k of None \<Rightarrow> Inl KeyError | Some v \<Rightarrow> Inr v)"
| "subscript _ k = Inl TypeError"

text \<open>\<^verbatim>\<open>float(v)\<close> on a JSON value.\<close>

fun py_float :: "env \<Rightarrow> json \<Rightarrow> py_error + real" where
  "py_float E (JFloat r) = Inr r"
| "py_float E (JInt i) = (case float_of_int E i of None \<Rightarrow> Inl OverflowError | Some r \<Rightarrow> Inr r)"
| "py_float E (JBool b) = Inr (if b then 1 else 0)"
| "py_float E (JStr s) = (case float_of_str E s of None \<Rightarrow> Inl ValueError | Some r \<Rightarrow> Inr r)"
| "py_float E _ = Inl TypeError"

text \<open>
  The first \<^verbatim>\<open>try\<close> block of \<^verbatim>\<open>api_forecast\<close>: the payload, \<^verbatim>\<open>lat\<close>, \<^verbatim>\<open>lon\<close>, and
  \<^verbatim>\<open>hours = 120\<close>. The \<^verbatim>\<open>hours\<close> field of the payload is not read.
\<close>

definition parse_request :: "env \<Rightarrow> json option \<Rightarrow> py_error + (real \<times> real \<times> int)" where
  "parse_request E b =
     (case get_json b of
        Inl e \<Rightarrow> Inl e
      | Inr payload \<Rightarrow>
          (case subscript payload ''lat'' of
             Inl e \<Rightarrow> Inl e
           | Inr a \<Rightarrow>
               (case py_float E a of
                  Inl e \<Rightarrow> Inl e
                | Inr lat \<Rightarrow>
                    (case subscript payload ''lon'' of
                       Inl e \<Rightarrow> Inl e
                     | Inr a2 \<Rightarrow>
                         (case py_float E a2 of
                            Inl e \<Rightarrow> Inl e
                          | Inr lon \<Rightarrow> Inr (lat, lon, 120))))))"

definition invalid_payload :: response where
  "invalid_payload =
     \<lparr>status = 400,
      body = JObj [(''error'', JStr ''Invalid payload. Provide lat, lon, optional hours.'')]\<rparr>"

definition fetch_failed :: "exn \<Rightarrow> response" where
  "fetch_failed e =
     \<lparr>status = 500,
      body = JObj [(''error'', JStr (''Forecast fetch failed: '' @ exc_text e))]\<rparr>"

definition forecast_ok :: "env \<Rightarrow> real \<Rightarrow> real \<Rightarrow> int \<Rightarrow> series \<Rightarrow> response" where
  "forecast_ok E lat lon hours s =
     (let times_iso = map (isoformat E) (time_dt s)
      in \<lparr>status = 200,
          body = JObj
            [(''time'', JArr (map JStr times_iso)),
             (''wind_dir'', JArr (map JFloat (wind_dir s))),
             (''wind_speed'', JArr (map JFloat (wind_speed s))),
             (''wind_gust'', JArr (map JFloat (wind_gust s))),
             (''meta'', JObj [(''lat'', JFloat lat), (''lon'', JFloat lon),
                             (''hours'', JInt hours), (''unit'', JStr ''knots'')])]\<rparr>)"

text \<open>
  The handler of \<^verbatim>\<open>POST /api/forecast\<close> on a request body. It returns the response
  and the calls of \<^verbatim>\<open>fetch_openmeteo\<close> it made, as \<open>(lat, lon, hours)\<close>; \<open>None\<close> would
  be a handler that never answers.
\<close>

definition api_forecast ::
  "env \<Rightarrow> json option \<Rightarrow> (response \<times> (real \<times> real \<times> int) list) option" where
  "api_forecast E b =
     (case parse_request E b of
        Inl e \<Rightarrow> Some (invalid_payload, [])
      | Inr (lat, lon, hours) \<Rightarrow>
          (case run (fetch_openmeteo E lat lon hours) (Some 30) of
             None \<Rightarrow> None
           | Some (Inl e) \<Rightarrow> Some (fetch_failed e, [(lat, lon, hours)])
           | Some (Inr s) \<Rightarrow> Some (forecast_ok E lat lon hours s, [(lat, lon, hours)])))"

section \<open>Chart renderer\<close>

text \<open>
  The errors \<^verbatim>\<open>render_png\<close> can raise, in the order in which the function reaches them:
  NumPy's \<^verbatim>\<open>ValueError\<close> for \<^verbatim>\<open>np.min\<close> or \<^verbatim>\<open>np.max\<close> of an empty array; NumPy's
  \<^verbatim>\<open>ValueError\<close> for operands that cannot be broadcast together; the \<^verbatim>\<open>ValueError\<close> of
  the colour normalisation when its lower bound exceeds its upper bound; the error
  of \<^verbatim>\<open>ax.bar\<close> when positions, heights and error bars do not fit
  together; \<^verbatim>\<open>IndexError\<close> for \<^verbatim>\<open>hourly_time[0]\<close> on an empty list; \<^verbatim>\<open>OverflowError\<close> when
  half an hour before the first or after the last timestamp is outside the range of
  \<^verbatim>\<open>datetime\<close>; and the \<^verbatim>\<open>ZeroDivisionError\<close> of \<^verbatim>\<open>ax_table.table\<close> for a row without
  cells. Beyond these the plotting library is taken to accept the figure.
\<close>

datatype render_error =
  ZeroSizeReduction
| BroadcastError
| NormalizeError
| ShapeError
| IndexError
| DateOverflow
| ZeroDivisionError

text \<open>
  The wind values are binary64 floats, modelled as the reals they denote. The sum and
  the difference of two floats are rounded, so they are taken from outside.
\<close>

record float_ops =
  fadd :: "real \<Rightarrow> real \<Rightarrow> real"
  fsub :: "real \<Rightarrow> real \<Rightarrow> real"

fun np_min :: "real list \<Rightarrow> render_error + real" where
  "np_min [] = Inl ZeroSizeReduction"
| "np_min (x # xs) = Inr (fold min xs x)"

fun np_max :: "real list \<Rightarrow> render_error + real" where
  "np_max [] = Inl ZeroSizeReduction"
| "np_max (x # xs) = Inr (fold max xs x)"

text \<open>
  \<^verbatim>\<open>a - b\<close> on one-dimensional arrays: element by element when the lengths agree, an
  array of length one is stretched to the other length, anything else is an error.
\<close>

definition np_sub :: "float_ops \<Rightarrow> real list \<Rightarrow> real list \<Rightarrow> render_error + real list" where
  "np_sub F a b =
     (if length a = length b then Inr (map (\<lambda>(x, y). fsub F x y) (zip a b))
      else if length a = 1 then Inr (map (\<lambda>y. fsub F (hd a) y) b)
      else if length b = 1 then Inr (map (\<lambda>x. fsub F x (hd b)) a)
      else Inl BroadcastError)"

text \<open>
  \<^verbatim>\<open>normalize(values)\<close> for \<^verbatim>\<open>normalize = plt.Normalize(vmin, vmax)\<close>: the call raises
  when \<open>vmin > vmax\<close>. The colours it leads to are not modelled.
\<close>

definition normalize_call :: "real \<Rightarrow> real \<Rightarrow> real list \<Rightarrow> render_error + unit" where
  "normalize_call vmin vmax values = (if vmin > vmax then Inl NormalizeError else Inr ())"

text \<open>
  \<^verbatim>\<open>ax.bar(x, height, yerr=(lower, upper))\<close> on the lengths of its arguments: \<open>x\<close> and
  \<open>height\<close> are broadcast together to the number of bars, and the two rows of
  \<open>yerr\<close> must have one common length, that number or one. The result is the number
  of bars.
\<close>

definition broadcast_len :: "nat \<Rightarrow> nat \<Rightarrow> nat option" where
  "broadcast_len m n =
     (if m = n then Some n else if m = 1 then Some n else if n = 1 then Some m else None)"

definition bar_call :: "nat \<Rightarrow> nat \<Rightarrow> nat \<Rightarrow> nat \<Rightarrow> render_error + nat" where
  "bar_call x height lower upper =
     (case broadcast_len x height of
        None \<Rightarrow> Inl ShapeError
      | Some bars \<Rightarrow>
          if lower = upper \<and> (lower = bars \<or> lower = 1) then Inr bars else Inl ShapeError)"

text \<open>
  \<^verbatim>\<open>t - timedelta(hours=0.5)\<close> and \<^verbatim>\<open>t + timedelta(hours=0.5)\<close> raise when the result
  would be before \<^verbatim>\<open>0001-01-01T00:00:00\<close> or after \<^verbatim>\<open>9999-12-31T23:59:59.999999\<close>; the
  arithmetic is on the fields, whatever the offset.
\<close>

definition half_hour_before_overflows :: "datetime \<Rightarrow> bool" where
  "half_hour_before_overflows t = (dt_key t < [1, 1, 1, 0, 30, 0, 0])"

definition half_hour_after_overflows :: "datetime \<Rightarrow> bool" where
  "half_hour_after_overflows t = ([9999, 12, 31, 23, 30, 0, 0] \<le> dt_key t)"

text \<open>
  What the figure is built from. A limit of the x-axis is a \<^verbatim>\<open>datetime\<close> with the hours
  added to it (\<^verbatim>\<open>hourly_time[0] - timedelta(hours=0.5)\<close> is \<open>(hourly_time[0], - 1/2)\<close>).
\<close>

record chart =
  norm_vmin :: real
  norm_vmax :: real
  bar_x :: "datetime list"
  bar_height :: "real list"
  bar_yerr :: "real list \<times> real list"
  ylim :: "real \<times> real"
  ylabel :: string
  xlim :: "(datetime \<times> real) \<times> (datetime \<times> real)"
  table_cells :: "real list list"

text \<open>
  The body of \<^verbatim>\<open>render_png\<close> up to \<^verbatim>\<open>savefig\<close>, statement by statement: the two
  reductions of \<^verbatim>\<open>plt.Normalize\<close>, the error bars, the arguments of \<^verbatim>\<open>ax.bar\<close> (among them
  \<^verbatim>\<open>normalize(wind_gusts)\<close>) and the call, \<^verbatim>\<open>set_ylim\<close>, \<^verbatim>\<open>set_xlim\<close>, the table.
\<close>

definition draw :: "float_ops \<Rightarrow> series \<Rightarrow> render_error + chart" where
  "draw F s =
     (let ws = wind_speed s; wg = wind_gust s; wd = wind_dir s; hourly_time = time_dt s
      in case np_min ws of
           Inl e \<Rightarrow> Inl e
         | Inr vmin \<Rightarrow>
      (case np_max wg of
           Inl e \<Rightarrow> Inl e
         | Inr vmax \<Rightarrow>
      (let gust_nerr = replicate (length ws) 0
       in case np_sub F wg ws of
           Inl e \<Rightarrow> Inl e
         | Inr diff \<Rightarrow>
      (let gust_perr = map abs diff
       in case normalize_call vmin vmax wg of
           Inl e \<Rightarrow> Inl e
         | Inr _ \<Rightarrow>
      (case bar_call (length hourly_time) (length ws) (length gust_nerr) (length gust_perr) of
           Inl e \<Rightarrow> Inl e
         | Inr _ \<Rightarrow>
      (case np_max wg of
           Inl e \<Rightarrow> Inl e
         | Inr gmax \<Rightarrow>
      (case hourly_time of
           [] \<Rightarrow> Inl IndexError
         | t0 # _ \<Rightarrow>
             if half_hour_before_overflows t0 then Inl DateOverflow
             else if half_hour_after_overflows (last hourly_time) then Inl DateOverflow
             else if wd = [] then Inl ZeroDivisionError
             else Inr \<lparr>norm_vmin = vmin, norm_vmax = vmax,
                       bar_x = hourly_time, bar_height = ws,
                       bar_yerr = (gust_nerr, gust_perr),
                       ylim = (0, fadd F gmax 3),
                       ylabel = ''Knots'',
                       xlim = ((t0, - (1/2)), (last hourly_time, 1/2)),
                       table_cells = [wd]\<rparr>)))))))"

text \<open>
  \<^verbatim>\<open>render_png(series, out_path)\<close>: the figure is saved at \<open>out_path\<close>, replacing what was
  there; when an error is raised nothing is saved.
\<close>

definition render_png ::
  "float_ops \<Rightarrow> series \<Rightarrow> string \<Rightarrow> (string \<rightharpoonup> chart) \<Rightarrow>
     render_error + (string \<rightharpoonup> chart)" where
  "render_png F s out_path files =
     (case draw F s of Inl e \<Rightarrow> Inl e | Inr c \<Rightarrow> Inr (files(out_path \<mapsto> c)))"

section \<open>A concrete standard library\<close>

text \<open>
  The theorems below hold for every environment. To run the program on concrete
  inputs, this section gives one environment, written from the documentation of
  Python's \<^verbatim>\<open>datetime\<close> and \<^verbatim>\<open>float\<close>.
\<close>

definition digit :: "nat \<Rightarrow> char" where
  "digit n = ''0123456789'' ! (n mod 10)"

text \<open>The last \<open>k\<close> decimal digits of \<open>n\<close>, zero-padded: \<^verbatim>\<open>"%0kd" % n\<close> for \<open>n < 10 ^ k\<close>.\<close>

primrec zero_padded :: "nat \<Rightarrow> nat \<Rightarrow> string" where
  "zero_padded 0 n = []"
| "zero_padded (Suc k) n = zero_padded k (n div 10) @ [digit n]"

text \<open>
  \<^verbatim>\<open>utcoffset\<close> as \<^verbatim>\<open>isoformat\<close> prints it: nothing for a naive value, else
  \<^verbatim>\<open>+HH:MM\<close> or \<^verbatim>\<open>-HH:MM\<close>, with \<^verbatim>\<open>:SS\<close> when the offset has seconds.
\<close>

definition iso_offset :: "int option \<Rightarrow> string" where
  "iso_offset off =
     (case off of
        None \<Rightarrow> []
      | Some secs \<Rightarrow>
          (let a = nat \<bar>secs\<bar>
           in (if secs < 0 then ''-'' else ''+'')
              @ zero_padded 2 (a div 3600) @ '':'' @ zero_padded 2 (a div 60 mod 60)
              @ (if a mod 60 = 0 then [] else '':'' @ zero_padded 2 (a mod 60))))"

text \<open>
  \<^verbatim>\<open>datetime.isoformat()\<close>: \<^verbatim>\<open>YYYY-MM-DDTHH:MM:SS\<close>, then \<^verbatim>\<open>.ffffff\<close> when the microsecond is
  not zero, then the offset.
\<close>

definition iso8601 :: "datetime \<Rightarrow> string" where
  "iso8601 d =
     zero_padded 4 (year d) @ ''-'' @ zero_padded 2 (month d) @ ''-'' @ zero_padded 2 (day d)
     @ ''T'' @ zero_padded 2 (hour d) @ '':'' @ zero_padded 2 (minute d)
     @ '':'' @ zero_padded 2 (second d)
     @ (if microsecond d = 0 then [] else ''.'' @ zero_padded 6 (microsecond d))
     @ iso_offset (utcoffset d)"

definition digit_val :: "char \<Rightarrow> nat option" where
  "digit_val c = (if c \<in> set ''0123456789'' then Some (of_char c - 48) else None)"

fun number_from :: "nat \<Rightarrow> string \<Rightarrow> nat option" where
  "number_from acc [] = Some acc"
| "number_from acc (c # cs) =
     (case digit_val c of None \<Rightarrow> None | Some v \<Rightarrow> number_from (10 * acc + v) cs)"

definition number :: "string \<Rightarrow> nat option" where
  "number s = (if s = [] then None else number_from 0 s)"

definition days_in_month :: "nat \<Rightarrow> nat \<Rightarrow> nat" where
  "days_in_month y m =
     (if m = 2 then (if y mod 4 = 0 \<and> (y mod 100 \<noteq> 0 \<or> y mod 400 = 0) then 29 else 28)
      else if m \<in> {4, 6, 9, 11} then 30 else 31)"

text \<open>The offset after the time: empty, or a sign and \<^verbatim>\<open>HH:MM\<close>.\<close>

definition parse_offset :: "string \<Rightarrow> int option option" where
  "parse_offset z =
     (if z = [] then Some None
      else if length z = 6 \<and> z ! 0 \<in> {CHR ''+'', CHR ''-''} \<and> z ! 3 = CHR '':'' then
        (case (number (take 2 (drop 1 z)), number (drop 4 z)) of
           (Some h, Some m) \<Rightarrow>
             if h < 24 \<and> m < 60
             then Some (Some ((if z ! 0 = CHR ''-'' then - 1 else 1) * int (h * 3600 + m * 60)))
             else None
         | _ \<Rightarrow> None)
      else None)"

text \<open>
  \<^verbatim>\<open>datetime.fromisoformat\<close> on the strings \<^verbatim>\<open>YYYY-MM-DD*HH:MM:SS\<close> with an optional offset
  \<^verbatim>\<open>+HH:MM\<close> or \<^verbatim>\<open>-HH:MM\<close>, where \<^verbatim>\<open>*\<close> is any one character. Python accepts further
  forms (a date alone, fractions of a second); they are not needed here and this
  parser refuses them.
\<close>

definition parse_iso_basic :: "string \<Rightarrow> datetime option" where
  "parse_iso_basic s =
     (if length s < 19 then None
      else if s ! 4 \<noteq> CHR ''-'' \<or> s ! 7 \<noteq> CHR ''-'' \<or> s ! 13 \<noteq> CHR '':'' \<or> s ! 16 \<noteq> CHR '':''
      then None
      else
        (case (number (take 4 s), number (take 2 (drop 5 s)), number (take 2 (drop 8 s))) of
           (Some y, Some mo, Some d) \<Rightarrow>
             (case (number (take 2 (drop 11 s)), number (take 2 (drop 14 s)),
                    number (take 2 (drop 17 s)), parse_offset (drop 19 s)) of
                (Some h, Some mi, Some se, Some off) \<Rightarrow>
                  if 1 \<le> y \<and> 1 \<le> mo \<and> mo \<le> 12 \<and> 1 \<le> d \<and> d \<le> days_in_month y mo
                     \<and> h < 24 \<and> mi < 60 \<and> se < 60
                  then Some \<lparr>year = y, month = mo, day = d, hour = h, minute = mi,
                             second = se, microsecond = 0, utcoffset = off\<rparr>
                  else None
              | _ \<Rightarrow> None)
         | _ \<Rightarrow> None))"

text \<open>\<^verbatim>\<open>float(s)\<close> on a string of decimal digits; every other string is refused here.\<close>

definition float_of_digits :: "string \<Rightarrow> real option" where
  "float_of_digits s = map_option real (number s)"

text \<open>\<^verbatim>\<open>datetime.fromtimestamp(0)\<close> on a machine whose local time zone is UTC.\<close>

definition epoch :: datetime where
  "epoch = \<lparr>year = 1970, month = 1, day = 1, hour = 0, minute = 0, second = 0,
            microsecond = 0, utcoffset = None\<rparr>"

definition stdlib :: "(real \<Rightarrow> real \<Rightarrow> hourly coro) \<Rightarrow> env" where
  "stdlib remote =
     \<lparr>fromisoformat = parse_iso_basic, fromtimestamp0 = epoch, isoformat = iso8601,
      float_of_str = float_of_digits, float_of_int = (\<lambda>i. Some (of_int i)),
      forecast = remote\<rparr>"

text \<open>
  Float arithmetic where nothing is rounded: right for operands whose sum and
  difference are binary64 values themselves, as the small integers of the samples
  below are.
\<close>

definition exact :: float_ops where
  "exact = \<lparr>fadd = (+), fsub = (-)\<rparr>"

text \<open>
  The values a Python \<^verbatim>\<open>datetime\<close> can have: the ranges of its fields.
\<close>

definition valid_datetime :: "datetime \<Rightarrow> bool" where
  "valid_datetime d =
     (1 \<le> year d \<and> year d \<le> 9999 \<and> 1 \<le> month d \<and> month d \<le> 12 \<and>
      1 \<le> day d \<and> day d \<le> days_in_month (year d) (month d) \<and>
      hour d < 24 \<and> minute d < 60 \<and> second d < 60 \<and> microsecond d < 1000000)"

text \<open>
  The order in which Python compares two \<^verbatim>\<open>datetime\<close> values of one UTC offset (or
  two without an offset): field by field, from the year down to the microsecond.
\<close>

definition chrono :: "datetime \<Rightarrow> datetime \<Rightarrow> bool" where
  "chrono a b = (utcoffset a = utcoffset b \<and> dt_key a \<le> dt_key b)"

section \<open>What the specification assumes of the remote forecast\<close>

text \<open>
  The four remote arrays are aligned: they have one length.
\<close>

definition aligned :: "hourly \<Rightarrow> bool" where
  "aligned h =
     (length (wind_direction_10m h) = length (time h) \<and>
      length (wind_speed_10m h) = length (time h) \<and>
      length (wind_gusts_10m h) = length (time h))"

text \<open>
  The moment a raw timestamp stands for: a \<^verbatim>\<open>datetime\<close> itself, or what its string parses
  to once every \<^verbatim>\<open>Z\<close> is rewritten; \<open>None\<close> for a string that does not parse, which the
  normalisation replaces by the epoch.
\<close>

definition instant :: "env \<Rightarrow> raw_time \<Rightarrow> datetime option" where
  "instant E t =
     (case t of
        Structured d \<Rightarrow> Some d
      | Unstructured s \<Rightarrow> fromisoformat E (replace CHR ''Z'' ''+00:00'' s))"

section \<open>Reading a response\<close>

text \<open>The length of the array under a key of a JSON object, and the strings of one.\<close>

definition array_len :: "response \<Rightarrow> string \<Rightarrow> nat option" where
  "array_len r k =
     (case subscript (body r) k of Inr (JArr xs) \<Rightarrow> Some (length xs) | _ \<Rightarrow> None)"

fun json_string :: "json \<Rightarrow> string option" where
  "json_string (JStr s) = Some s"
| "json_string _ = None"

fun strings_of :: "json list \<Rightarrow> string list option" where
  "strings_of [] = Some []"
| "strings_of (j # js) =
     (case json_string j of
        None \<Rightarrow> None
      | Some s \<Rightarrow> (case strings_of js of None \<Rightarrow> None | Some ss \<Rightarrow> Some (s # ss)))"

definition time_strings :: "response \<Rightarrow> string list option" where
  "time_strings r =
     (case subscript (body r) ''time'' of Inr (JArr xs) \<Rightarrow> strings_of xs | _ \<Rightarrow> None)"

definition meta_hours :: "response \<Rightarrow> json option" where
  "meta_hours r =
     (case subscript (body r) ''meta'' of
        Inr m \<Rightarrow> (case subscript m ''hours'' of Inr v \<Rightarrow> Some v | Inl _ \<Rightarrow> None)
      | Inl _ \<Rightarrow> None)"

section \<open>The normalisation as the specification words it\<close>

text \<open>
  The specification describes the rewriting of the string as "a trailing literal Z
  treated as a zero UTC offset": only a last character \<^verbatim>\<open>Z\<close> becomes \<^verbatim>\<open>+00:00\<close>.
\<close>

definition trailing_Z :: "string \<Rightarrow> string" where
  "trailing_Z s = (if s \<noteq> [] \<and> last s = CHR ''Z'' then butlast s @ ''+00:00'' else s)"

definition spec_normalize_time :: "env \<Rightarrow> raw_time \<Rightarrow> datetime" where
  "spec_normalize_time E t =
     (case t of
        Structured d \<Rightarrow> d
      | Unstructured s \<Rightarrow>
          (case fromisoformat E (trailing_Z s) of
             Some d \<Rightarrow> d
           | None \<Rightarrow> fromtimestamp0 E))"

section \<open>Sample inputs\<close>

definition at_day :: "nat \<Rightarrow> datetime" where
  "at_day n = \<lparr>year = 2024, month = 1, day = n, hour = 0, minute = 0, second = 0,
              microsecond = 0, utcoffset = None\<rparr>"

definition midnight_utc :: datetime where
  "midnight_utc = \<lparr>year = 2024, month = 1, day = 1, hour = 0, minute = 0, second = 0,
                   microsecond = 0, utcoffset = Some 0\<rparr>"

text \<open>A remote service that answers every call at once with the same forecast.\<close>

definition answers :: "hourly \<Rightarrow> real \<Rightarrow> real \<Rightarrow> hourly coro" where
  "answers h lat lon = Finishes 1 (Inr h)"

text \<open>A remote service that raises, and one that never answers.\<close>

definition refuses :: "exn \<Rightarrow> real \<Rightarrow> real \<Rightarrow> hourly coro" where
  "refuses e lat lon = Finishes 1 (Inl e)"

definition silent :: "real \<Rightarrow> real \<Rightarrow> hourly coro" where
  "silent lat lon = Never"

definition two_days :: hourly where
  "two_days = \<lparr>time = [Structured (at_day 2), Structured (at_day 3)],
               wind_direction_10m = [180, 190], wind_speed_10m = [10, 11],
               wind_gusts_10m = [15, 16]\<rparr>"

definition string_then_datetime :: hourly where
  "string_then_datetime =
     \<lparr>time = [Unstructured ''2024-01-02T00:00:00'', Structured (at_day 3)],
      wind_direction_10m = [180, 190], wind_speed_10m = [10, 11],
      wind_gusts_10m = [15, 16]\<rparr>"

definition with_bad_stamp :: hourly where
  "with_bad_stamp = \<lparr>time = [Unstructured ''2024-01-02T00:00:00'', Unstructured ''not-a-date''],
                     wind_direction_10m = [180, 190], wind_speed_10m = [10, 11],
                     wind_gusts_10m = [15, 16]\<rparr>"

definition newport :: json where
  "newport = JObj [(''lat'', JFloat 41.5), (''lon'', JFloat (- 71.3))]"

definition one_point :: series where
  "one_point = \<lparr>time_dt = [at_day 2], wind_dir = [180], wind_speed = [10], wind_gust = [15]\<rparr>"

text \<open>
  A series of one point whose gust is below its speed, and one at the first moment a
  \<^verbatim>\<open>datetime\<close> can hold.
\<close>

definition at_datetime_min :: series where
  "at_datetime_min =
     \<lparr>time_dt = [\<lparr>year = 1, month = 1, day = 1, hour = 0, minute = 0, second = 0,
                  microsecond = 0, utcoffset = None\<rparr>],
      wind_dir = [180], wind_speed = [10], wind_gust = [15]\<rparr>"


definition gust_below_speed :: series where
  "gust_below_speed =
     \<lparr>time_dt = [at_day 2], wind_dir = [180], wind_speed = [10], wind_gust = [5]\<rparr>"

section \<open>Basic facts\<close>

lemma normalize_times_map: "normalize_times E ts = map (normalize_time E) ts"
  by (induction ts) simp_all

lemma build_series_take:
  "build_series E h hours =
     \<lparr>time_dt = map (normalize_time E) (take (nat (max 1 hours)) (time h)),
      wind_dir = take (nat (max 1 hours)) (wind_direction_10m h),
      wind_speed = take (nat (max 1 hours)) (wind_speed_10m h),
      wind_gust = take (nat (max 1 hours)) (wind_gusts_10m h)\<rparr>"
  by (simp add: build_series_def Let_def normalize_times_map slice0_def nhours_def)

lemma run_fetch_cases:
  "run (fetch_openmeteo E lat lon hours) (Some T) =
     Some (case forecast E lat lon of
             Never \<Rightarrow> Inl timeout_error
           | Finishes d r \<Rightarrow>
               if d \<le> T then (case r of Inl e \<Rightarrow> Inl e | Inr h \<Rightarrow> Inr (build_series E h hours))
               else Inl timeout_error)"
  by (simp add: run_def fetch_openmeteo_def split: coro.splits sum.splits)

lemma parse_request_hours: "parse_request E b = Inr (lat, lon, hrs) \<Longrightarrow> hrs = 120"
  by (auto simp: parse_request_def split: sum.splits)

lemma parse_request_fields:
  "parse_request E (Some (JObj kvs)) =
     (case map_of kvs ''lat'' of
        None \<Rightarrow> Inl KeyError
      | Some a \<Rightarrow>
          (case py_float E a of
             Inl e \<Rightarrow> Inl e
           | Inr lat \<Rightarrow>
               (case map_of kvs ''lon'' of
                  None \<Rightarrow> Inl KeyError
                | Some a2 \<Rightarrow>
                    (case py_float E a2 of Inl e \<Rightarrow> Inl e | Inr lon \<Rightarrow> Inr (lat, lon, 120)))))"
  by (simp add: parse_request_def get_json_def split: option.splits sum.splits)

lemma forecast_ok_meta_hours: "meta_hours (forecast_ok E lat lon hours s) = Some (JInt hours)"
  by (simp add: meta_hours_def forecast_ok_def)

lemma api_forecast_valid:
  assumes "parse_request E b = Inr (lat, lon, hrs)"
  shows "api_forecast E b =
           Some (case forecast E lat lon of
                   Never \<Rightarrow> fetch_failed timeout_error
                 | Finishes d res \<Rightarrow>
                     if d \<le> 30
                     then (case res of
                             Inl e \<Rightarrow> fetch_failed e
                           | Inr h \<Rightarrow> forecast_ok E lat lon 120 (build_series E h 120))
                     else fetch_failed timeout_error,
                 [(lat, lon, 120)])"
  using assms parse_request_hours [OF assms]
  by (simp add: api_forecast_def run_fetch_cases split: coro.splits sum.splits)

lemma parse_newport: "parse_request (stdlib R) (Some newport) = Inr (41.5, - 71.3, 120)"
  by (simp add: parse_request_fields newport_def)

lemma replace_append: "replace old new (p @ q) = replace old new p @ replace old new q"
  by (induction p) simp_all

lemma replace_absent: "old \<notin> set s \<Longrightarrow> replace old new s = s"
  by (induction s) auto

lemma replace_trailing:
  assumes "CHR ''Z'' \<notin> set (butlast s)"
  shows "replace CHR ''Z'' ''+00:00'' s = trailing_Z s"
proof (cases "s = []")
  case True
  then show ?thesis by (simp add: trailing_Z_def)
next
  case False
  then have "s = butlast s @ [last s]" by simp
  then have "replace CHR ''Z'' ''+00:00'' s =
      replace CHR ''Z'' ''+00:00'' (butlast s) @ replace CHR ''Z'' ''+00:00'' [last s]"
    by (metis replace_append)
  also have "\<dots> = butlast s @ (if last s = CHR ''Z'' then ''+00:00'' else [last s])"
    using assms by (simp add: replace_absent)
  finally show ?thesis using False by (simp add: trailing_Z_def)
qed

lemma strings_of_JStr: "strings_of (map (JStr \<circ> f) xs) = Some (map f xs)"
  by (induction xs) simp_all

lemma forecast_ok_arrays:
  "array_len (forecast_ok E lat lon hours s) ''time'' = Some (length (time_dt s))"
  "array_len (forecast_ok E lat lon hours s) ''wind_dir'' = Some (length (wind_dir s))"
  "array_len (forecast_ok E lat lon hours s) ''wind_speed'' = Some (length (wind_speed s))"
  "array_len (forecast_ok E lat lon hours s) ''wind_gust'' = Some (length (wind_gust s))"
  by (simp_all add: array_len_def forecast_ok_def)

lemma forecast_ok_time_strings:
  "time_strings (forecast_ok E lat lon hours s) = Some (map (isoformat E) (time_dt s))"
  by (simp add: time_strings_def forecast_ok_def strings_of_JStr)

lemma np_max_Max: "xs \<noteq> [] \<Longrightarrow> np_max xs = Inr (Max (set xs))"
proof (cases xs)
  case Nil
  assume "xs \<noteq> []"
  with Nil show ?thesis by simp
next
  case (Cons a list)
  then show ?thesis
    using Max.set_eq_fold [of a list] by simp
qed

lemma np_min_Min: "xs \<noteq> [] \<Longrightarrow> np_min xs = Inr (Min (set xs))"
proof (cases xs)
  case Nil
  assume "xs \<noteq> []"
  with Nil show ?thesis by simp
next
  case (Cons a list)
  then show ?thesis
    using Min.set_eq_fold [of a list] by simp
qed

lemma draw_empty:
  "wind_speed s = [] \<or> wind_gust s = [] \<Longrightarrow> draw F s = Inl ZeroSizeReduction"
  by (cases "wind_speed s") (auto simp add: draw_def Let_def)

lemma draw_nonempty:
  "wind_speed s \<noteq> [] \<Longrightarrow> wind_gust s \<noteq> [] \<Longrightarrow> draw F s \<noteq> Inl ZeroSizeReduction"
  by (auto simp add: draw_def Let_def np_max_Max np_min_Min np_sub_def normalize_call_def
      bar_call_def split: list.splits option.splits)

lemma instant_normalize: "instant E t = Some d \<Longrightarrow> normalize_time E t = d"
  by (cases t) (simp_all add: instant_def normalize_time_def)

lemma instants_normalize:
  "map (instant E) ts = map Some ds \<Longrightarrow> map (normalize_time E) ts = ds"
proof (induction ts arbitrary: ds)
  case Nil
  then show ?case by simp
next
  case (Cons t ts)
  then obtain d ds' where ds: "ds = d # ds'" and d: "instant E t = Some d"
    and rest: "map (instant E) ts = map Some ds'"
    by (cases ds) auto
  with Cons.IH [OF rest] instant_normalize [OF d] show ?case by simp
qed

lemma append_less_same_length:
  "length A = length B \<Longrightarrow> (A @ X < B @ Y) = (A < B \<or> A = B \<and> X < Y)"
  for A B :: "'a::linorder list"
  by (induction A B rule: list_induct2) auto

lemma append_le_same_length:
  "length A = length B \<Longrightarrow> (A @ X \<le> B @ Y) = (A < B \<or> A = B \<and> X \<le> Y)"
  for A B :: "'a::linorder list"
  by (induction A B rule: list_induct2) auto


lemma split_less:
  fixes a b c d :: nat
  assumes "b < 10" and "d < 10"
  shows "(10 * a + b < 10 * c + d) = (a < c \<or> a = c \<and> b < d)"
  using assms by auto

lemma split_eq:
  fixes a b c d :: nat
  assumes "b < 10" and "d < 10"
  shows "(10 * a + b = 10 * c + d) = (a = c \<and> b = d)"
proof
  assume eq: "10 * a + b = 10 * c + d"
  then have "(10 * a + b) mod 10 = (10 * c + d) mod 10"
    by (rule arg_cong)
  with assms have "b = d" by simp
  with eq show "a = c \<and> b = d" by simp
next
  assume "a = c \<and> b = d"
  then show "10 * a + b = 10 * c + d" by simp
qed


lemma less_by_digits:
  "(n < m) = (n div 10 < m div 10 \<or> n div 10 = m div 10 \<and> n mod 10 < m mod 10)"
  for n m :: nat
proof -
  have "(10 * (n div 10) + n mod 10 < 10 * (m div 10) + m mod 10) =
      (n div 10 < m div 10 \<or> n div 10 = m div 10 \<and> n mod 10 < m mod 10)"
    by (rule split_less) simp_all
  then show ?thesis by (simp only: mult_div_mod_eq)
qed

lemma eq_by_digits: "(n = m) = (n div 10 = m div 10 \<and> n mod 10 = m mod 10)"
  for n m :: nat
proof -
  have "(10 * (n div 10) + n mod 10 = 10 * (m div 10) + m mod 10) =
      (n div 10 = m div 10 \<and> n mod 10 = m mod 10)"
    by (rule split_eq) simp_all
  then show ?thesis by (simp only: mult_div_mod_eq)
qed

lemma of_char_digit: "of_char (digit n) = (48 + n mod 10 :: nat)"
proof -
  have "n mod 10 = 0 \<or> n mod 10 = 1 \<or> n mod 10 = 2 \<or> n mod 10 = 3 \<or> n mod 10 = 4 \<or>
      n mod 10 = 5 \<or> n mod 10 = 6 \<or> n mod 10 = 7 \<or> n mod 10 = 8 \<or> n mod 10 = 9"
    by presburger
  then show ?thesis
    unfolding digit_def by (elim disjE) simp_all
qed

lemma digit_less: "(digit a < digit b) = (a mod 10 < b mod 10)"
  by (simp add: less_char_def of_char_digit)


lemma digit_eq: "(digit a = digit b) = (a mod 10 = b mod 10)"
proof
  assume "digit a = digit b"
  then have "(of_char (digit a) :: nat) = of_char (digit b)" by simp
  then show "a mod 10 = b mod 10" by (simp add: of_char_digit)
next
  assume "a mod 10 = b mod 10"
  then show "digit a = digit b" by (simp add: digit_def)
qed

lemma length_zero_padded: "length (zero_padded k n) = k"
  by (induction k arbitrary: n) simp_all

lemma zero_padded_eq:
  "n < 10 ^ k \<Longrightarrow> m < 10 ^ k \<Longrightarrow> (zero_padded k n = zero_padded k m) = (n = m)"
proof (induction k arbitrary: n m)
  case 0
  then show ?case by simp
next
  case (Suc k)
  then have "n div 10 < 10 ^ k" and "m div 10 < 10 ^ k"
    by (simp_all add: less_mult_imp_div_less mult.commute)
  with Suc.IH [of "n div 10" "m div 10"] show ?case
    by (simp add: digit_eq eq_by_digits [of n m])
qed

lemma zero_padded_less:
  "n < 10 ^ k \<Longrightarrow> m < 10 ^ k \<Longrightarrow> (zero_padded k n < zero_padded k m) = (n < m)"
proof (induction k arbitrary: n m)
  case 0
  then show ?case by simp
next
  case (Suc k)
  then have b: "n div 10 < 10 ^ k" "m div 10 < 10 ^ k"
    by (simp_all add: less_mult_imp_div_less mult.commute)
  show ?case
    using Suc.IH [OF b] zero_padded_eq [OF b]
    by (simp add: append_less_same_length length_zero_padded digit_less less_by_digits [of n m])
qed

lemma field_le:
  "n < 10 ^ k \<Longrightarrow> m < 10 ^ k \<Longrightarrow>
     (zero_padded k n @ X \<le> zero_padded k m @ Y) = (n < m \<or> n = m \<and> X \<le> Y)"
  by (simp add: append_le_same_length length_zero_padded zero_padded_less zero_padded_eq)

lemma offset_le_dot: "iso_offset off \<le> CHR ''.'' # X"
  by (cases off) (simp_all add: iso_offset_def Let_def)

lemma fraction_le:
  assumes "ua < 10 ^ 6" and "ub < 10 ^ 6" and "ua \<le> ub"
  shows "(if ua = 0 then [] else ''.'' @ zero_padded 6 ua) @ iso_offset off
       \<le> (if ub = 0 then [] else ''.'' @ zero_padded 6 ub) @ iso_offset off"
proof (cases "ua = 0")
  case True
  then show ?thesis by (simp add: offset_le_dot)
next
  case False
  with assms have "ub \<noteq> 0" by simp
  with False assms show ?thesis
    using field_le [of ua 6 ub "iso_offset off" "iso_offset off"] by auto
qed

lemma iso8601_mono:
  assumes a: "valid_datetime a" and b: "valid_datetime b" and le: "chrono a b"
  shows "iso8601 a \<le> iso8601 b"
proof -
  let ?ta = "(if microsecond a = 0 then [] else ''.'' @ zero_padded 6 (microsecond a))
      @ iso_offset (utcoffset a)"
  let ?tb = "(if microsecond b = 0 then [] else ''.'' @ zero_padded 6 (microsecond b))
      @ iso_offset (utcoffset b)"
  have bounds: "year a < 10 ^ 4" "year b < 10 ^ 4" "month a < 10 ^ 2" "month b < 10 ^ 2"
    "day a < 10 ^ 2" "day b < 10 ^ 2" "hour a < 10 ^ 2" "hour b < 10 ^ 2"
    "minute a < 10 ^ 2" "minute b < 10 ^ 2" "second a < 10 ^ 2" "second b < 10 ^ 2"
    "microsecond a < 10 ^ 6" "microsecond b < 10 ^ 6"
    using a b by (simp_all add: valid_datetime_def days_in_month_def split: if_splits)
  have tail: "microsecond a \<le> microsecond b \<Longrightarrow> ?ta \<le> ?tb"
    using fraction_le [OF bounds(13,14), of "utcoffset a"] le by (simp add: chrono_def)
  have key: "dt_key a \<le> dt_key b"
    using le by (simp add: chrono_def)
  have "iso8601 a \<le> iso8601 b \<longleftrightarrow>
      year a < year b \<or> year a = year b \<and>
      (month a < month b \<or> month a = month b \<and>
      (day a < day b \<or> day a = day b \<and>
      (hour a < hour b \<or> hour a = hour b \<and>
      (minute a < minute b \<or> minute a = minute b \<and>
      (second a < second b \<or> second a = second b \<and> ?ta \<le> ?tb)))))"
    unfolding iso8601_def
    by (simp only: field_le [OF bounds(1,2)] field_le [OF bounds(3,4)] field_le [OF bounds(5,6)]
        field_le [OF bounds(7,8)] field_le [OF bounds(9,10)] field_le [OF bounds(11,12)]
        append_Cons append_Nil Cons_le_Cons less_irrefl simp_thms)
  moreover have "year a < year b \<or> year a = year b \<and>
      (month a < month b \<or> month a = month b \<and>
      (day a < day b \<or> day a = day b \<and>
      (hour a < hour b \<or> hour a = hour b \<and>
      (minute a < minute b \<or> minute a = minute b \<and>
      (second a < second b \<or> second a = second b \<and> microsecond a \<le> microsecond b)))))"
    using key by (auto simp add: dt_key_def)
  ultimately show ?thesis
    using tail by blast
qed

text \<open>
  Every successful response comes from a valid request and a forecast that the remote
  service returned in time for the request's latitude and longitude.
\<close>

lemma successful_response_arises:
  assumes "api_forecast E b = Some (r, c)" and "status r = 200"
  shows "\<exists>lat lon d h. parse_request E b = Inr (lat, lon, 120) \<and>
           forecast E lat lon = Finishes d (Inr h) \<and> d \<le> 30 \<and>
           r = forecast_ok E lat lon 120 (build_series E h 120) \<and> c = [(lat, lon, 120)]"
proof (cases "parse_request E b")
  case (Inl e)
  with assms show ?thesis by (auto simp add: api_forecast_def invalid_payload_def)
next
  case (Inr p)
  obtain lat lon hrs where p: "p = (lat, lon, hrs)" by (cases p)
  have hrs: "hrs = 120" using Inr p by (simp add: parse_request_hours)
  show ?thesis
  proof (cases "forecast E lat lon")
    case Never
    with assms Inr p show ?thesis
      by (auto simp add: api_forecast_def run_fetch_cases fetch_failed_def)
  next
    case (Finishes d res)
    show ?thesis
    proof (cases "d \<le> 30")
      case False
      with assms Inr p Finishes show ?thesis
        by (auto simp add: api_forecast_def run_fetch_cases fetch_failed_def)
    next
      case True
      show ?thesis
      proof (cases res)
        case (Inl e)
        with assms Inr p Finishes True show ?thesis
          by (auto simp add: api_forecast_def run_fetch_cases fetch_failed_def)
      next
        case (Inr h)
        with assms \<open>parse_request E b = Inr p\<close> p hrs Finishes True show ?thesis
          by (auto simp add: api_forecast_def run_fetch_cases)
      qed
    qed
  qed
qed

lemma successful_response:
  assumes "parse_request E b = Inr (lat, lon, hrs)"
    and "forecast E lat lon = Finishes d (Inr h)"
    and "api_forecast E b = Some (r, c)" and "status r = 200"
  shows "r = forecast_ok E lat lon 120 (build_series E h 120) \<and> c = [(lat, lon, 120)]"
proof -
  have "d \<le> 30"
  proof (rule ccontr)
    assume "\<not> d \<le> 30"
    with assms show False
      by (auto simp add: api_forecast_valid [OF assms(1)] fetch_failed_def)
  qed
  with assms show ?thesis
    by (auto simp add: api_forecast_valid [OF assms(1)])
qed

lemma sorted_iso8601:
  "list_all valid_datetime ds \<Longrightarrow> sorted_wrt chrono ds \<Longrightarrow> sorted_wrt (\<le>) (map iso8601 ds)"
  unfolding sorted_wrt_map
  by (erule sorted_wrt_mono_rel [rotated]) (simp add: list_all_iff iso8601_mono)

section \<open>Truncation to the horizon\<close>

text \<open>
  Claim C7. For every call of the fetch with horizon \<open>hours\<close> whose remote call returns
  a forecast, the effective horizon is \<open>n = max(1, hours)\<close> and the fetch returns: each
  array is the first \<open>n\<close> elements of the remote array (the timestamps normalised
  one by one), hence the whole remote array when that has at most \<open>n\<close> elements.
  Nothing is padded and short data is no error.
\<close>

theorem fetch_truncates:
  assumes "forecast E lat lon = Finishes d (Inr h)"
  shows "\<exists>s. fetch_openmeteo E lat lon hours = Finishes d (Inr s) \<and>
           time_dt s = map (normalize_time E) (take (nat (max 1 hours)) (time h)) \<and>
           wind_dir s = take (nat (max 1 hours)) (wind_direction_10m h) \<and>
           wind_speed s = take (nat (max 1 hours)) (wind_speed_10m h) \<and>
           wind_gust s = take (nat (max 1 hours)) (wind_gusts_10m h) \<and>
           (int (length (time h)) \<le> max 1 hours \<longrightarrow>
              time_dt s = map (normalize_time E) (time h)) \<and>
           (int (length (wind_direction_10m h)) \<le> max 1 hours \<longrightarrow>
              wind_dir s = wind_direction_10m h) \<and>
           (int (length (wind_speed_10m h)) \<le> max 1 hours \<longrightarrow>
              wind_speed s = wind_speed_10m h) \<and>
           (int (length (wind_gusts_10m h)) \<le> max 1 hours \<longrightarrow>
              wind_gust s = wind_gusts_10m h)"
  using assms by (simp add: fetch_openmeteo_def build_series_take)

theorem fetch_truncates_witness:
  "forecast (stdlib (answers two_days)) 41.5 (- 71.3) = Finishes 1 (Inr two_days) \<and>
   fetch_openmeteo (stdlib (answers two_days)) 41.5 (- 71.3) 0 =
     Finishes 1 (Inr \<lparr>time_dt = [at_day 2], wind_dir = [180], wind_speed = [10],
                       wind_gust = [15]\<rparr>) \<and>
   fetch_openmeteo (stdlib (answers two_days)) 41.5 (- 71.3) 120 =
     Finishes 1 (Inr \<lparr>time_dt = [at_day 2, at_day 3], wind_dir = [180, 190],
                       wind_speed = [10, 11], wind_gust = [15, 16]\<rparr>)"
proof -
  have remote: "forecast (stdlib (answers two_days)) 41.5 (- 71.3) = Finishes 1 (Inr two_days)"
    by (simp add: stdlib_def answers_def)
  show ?thesis
    using remote fetch_truncates [OF remote, of 0] fetch_truncates [OF remote, of 120]
    by (auto simp add: two_days_def normalize_time_def)
qed

section \<open>Validation of the request\<close>

text \<open>
  Claim C10. A request body that is not syntactically valid JSON gets the same
  answer as any other invalid payload: status 400 with the fixed message, because the
  body is parsed inside the \<^verbatim>\<open>try\<close> block that validates \<^verbatim>\<open>lat\<close> and \<^verbatim>\<open>lon\<close>. No fetch
  is made.
\<close>

theorem not_json_is_invalid_payload:
  "api_forecast E None =
     Some (\<lparr>status = 400,
            body = JObj [(''error'', JStr ''Invalid payload. Provide lat, lon, optional hours.'')]\<rparr>,
           [])"
  by (simp add: api_forecast_def parse_request_def get_json_def invalid_payload_def)

text \<open>
  Claim C5. A payload without \<^verbatim>\<open>lat\<close>, or whose \<^verbatim>\<open>lat\<close> or \<^verbatim>\<open>lon\<close> is not accepted by
  \<^verbatim>\<open>float\<close>, is answered with status 400 and exactly the body
  \<^verbatim>\<open>{"error": "Invalid payload. Provide lat, lon, optional hours."}\<close>, and no fetch is made.
\<close>

theorem invalid_fields_rejected:
  assumes "map_of kvs ''lat'' = None
           \<or> (\<exists>a e. map_of kvs ''lat'' = Some a \<and> py_float E a = Inl e)
           \<or> (\<exists>a e. map_of kvs ''lon'' = Some a \<and> py_float E a = Inl e)"
  shows "api_forecast E (Some (JObj kvs)) =
           Some (\<lparr>status = 400,
                  body = JObj [(''error'',
                                JStr ''Invalid payload. Provide lat, lon, optional hours.'')]\<rparr>,
                 [])"
proof -
  have "\<exists>e. parse_request E (Some (JObj kvs)) = Inl e"
    using assms by (auto simp add: parse_request_fields split: option.splits sum.splits)
  then show ?thesis
    by (auto simp add: api_forecast_def invalid_payload_def)
qed

theorem invalid_fields_rejected_witness:
  "api_forecast (stdlib (answers two_days)) (Some (JObj [(''lon'', JFloat 1)])) =
     Some (\<lparr>status = 400,
            body = JObj [(''error'',
                          JStr ''Invalid payload. Provide lat, lon, optional hours.'')]\<rparr>, []) \<and>
   api_forecast (stdlib (answers two_days))
       (Some (JObj [(''lat'', JStr ''north''), (''lon'', JFloat 1)])) =
     Some (\<lparr>status = 400,
            body = JObj [(''error'',
                          JStr ''Invalid payload. Provide lat, lon, optional hours.'')]\<rparr>, []) \<and>
   api_forecast (stdlib (answers two_days))
       (Some (JObj [(''lat'', JFloat 1), (''lon'', JNull)])) =
     Some (\<lparr>status = 400,
            body = JObj [(''error'',
                          JStr ''Invalid payload. Provide lat, lon, optional hours.'')]\<rparr>, [])"
proof -
  let ?E = "stdlib (answers two_days)"
  have a: "map_of [(''lon'', JFloat 1)] ''lat'' = None"
    by simp
  have "float_of_digits ''north'' = None"
    by (simp add: float_of_digits_def number_def digit_val_def)
  then have b: "\<exists>a e. map_of [(''lat'', JStr ''north''), (''lon'', JFloat 1)] ''lat'' = Some a
                  \<and> py_float ?E a = Inl e"
    by (simp add: stdlib_def)
  have c: "\<exists>a e. map_of [(''lat'', JFloat 1), (''lon'', JNull)] ''lon'' = Some a
                  \<and> py_float ?E a = Inl e"
    by simp
  show ?thesis
    using invalid_fields_rejected [of "[(''lon'', JFloat 1)]" ?E, OF disjI1, OF a]
      invalid_fields_rejected [of "[(''lat'', JStr ''north''), (''lon'', JFloat 1)]" ?E,
        OF disjI2, OF disjI1, OF b]
      invalid_fields_rejected [of "[(''lat'', JFloat 1), (''lon'', JNull)]" ?E,
        OF disjI2, OF disjI2, OF c]
    by simp
qed

section \<open>The horizon of the handler\<close>

text \<open>
  Claim C1. For every request whose \<^verbatim>\<open>lat\<close> and \<^verbatim>\<open>lon\<close> are valid, the handler answers,
  its one fetch is made with the horizon 120, and a \<^verbatim>\<open>meta.hours\<close> field of the response
  is 120 (the response has one when its status is 200). Setting the \<^verbatim>\<open>hours\<close> field of
  the payload to any value, or removing it, changes nothing.
\<close>

theorem hours_fixed_at_120:
  assumes "map_of kvs ''lat'' = Some a" and "py_float E a = Inr lat"
    and "map_of kvs ''lon'' = Some a2" and "py_float E a2 = Inr lon"
  shows "\<exists>r. api_forecast E (Some (JObj kvs)) = Some (r, [(lat, lon, 120)]) \<and>
           (status r = 200 \<longrightarrow> meta_hours r = Some (JInt 120)) \<and>
           (\<forall>v. meta_hours r = Some v \<longrightarrow> v = JInt 120) \<and>
           api_forecast E (Some (JObj (AList.update ''hours'' v kvs))) =
             api_forecast E (Some (JObj kvs)) \<and>
           api_forecast E (Some (JObj (AList.delete ''hours'' kvs))) =
             api_forecast E (Some (JObj kvs))"
proof -
  have p: "parse_request E (Some (JObj kvs)) = Inr (lat, lon, 120)"
    using assms by (simp add: parse_request_fields)
  have pu: "parse_request E (Some (JObj (AList.update ''hours'' v kvs))) = Inr (lat, lon, 120)"
    using assms by (simp add: parse_request_fields update_conv')
  have pd: "parse_request E (Some (JObj (AList.delete ''hours'' kvs))) = Inr (lat, lon, 120)"
    using assms by (simp add: parse_request_fields delete_conv')
  have failed: "meta_hours (fetch_failed e) = None" for e
    by (simp add: meta_hours_def fetch_failed_def)
  have st: "status (fetch_failed e) = 500" for e
    by (simp add: fetch_failed_def)
  show ?thesis
    unfolding api_forecast_valid [OF p] api_forecast_valid [OF pu] api_forecast_valid [OF pd]
    by (auto simp add: forecast_ok_meta_hours failed st split: coro.splits sum.splits)
qed

theorem hours_fixed_at_120_witness:
  "\<exists>r. api_forecast (stdlib (answers two_days))
          (Some (JObj [(''lat'', JFloat 41.5), (''lon'', JFloat (- 71.3)), (''hours'', JInt 7)])) =
          Some (r, [(41.5, - 71.3, 120)]) \<and>
        status r = 200 \<and> meta_hours r = Some (JInt 120)"
proof -
  let ?E = "stdlib (answers two_days)"
  let ?kvs = "[(''lat'', JFloat 41.5), (''lon'', JFloat (- 71.3)), (''hours'', JInt 7)]"
  have lat: "map_of ?kvs ''lat'' = Some (JFloat 41.5)" and lon: "map_of ?kvs ''lon'' = Some (JFloat (- 71.3))"
    by simp_all
  have fl: "py_float ?E (JFloat 41.5) = Inr 41.5" "py_float ?E (JFloat (- 71.3)) = Inr (- 71.3)"
    by simp_all
  from hours_fixed_at_120 [OF lat fl(1) lon fl(2)]
  obtain r where r: "api_forecast ?E (Some (JObj ?kvs)) = Some (r, [(41.5, - 71.3, 120)])"
    and m: "status r = 200 \<longrightarrow> meta_hours r = Some (JInt 120)"
    by blast
  have p: "parse_request ?E (Some (JObj ?kvs)) = Inr (41.5, - 71.3, 120)"
    by (simp add: parse_request_fields)
  have "status r = 200"
    using r unfolding api_forecast_valid [OF p]
    by (auto simp add: stdlib_def answers_def forecast_ok_def)
  with r m show ?thesis by blast
qed

section \<open>Failure of the fetch\<close>

text \<open>
  Claim C6. For every request that passes validation, when the fetch run through the
  event loop with its timeout of 30 seconds raises an exception \<open>e\<close>, the handler
  answers with status 500 and the body \<^verbatim>\<open>{"error": "Forecast fetch failed: <text of e>"}\<close>.
\<close>

theorem fetch_failure_is_500:
  assumes "parse_request E b = Inr (lat, lon, hrs)"
    and "run (fetch_openmeteo E lat lon hrs) (Some 30) = Some (Inl e)"
  shows "api_forecast E b =
           Some (\<lparr>status = 500,
                  body = JObj [(''error'', JStr (''Forecast fetch failed: '' @ exc_text e))]\<rparr>,
                 [(lat, lon, 120)])"
  using assms parse_request_hours [OF assms(1)]
  by (simp add: api_forecast_def fetch_failed_def)

theorem fetch_failure_is_500_witness:
  "api_forecast (stdlib (refuses (Exn ''OpenMeteoConnectionError'' ''no route''))) (Some newport) =
     Some (\<lparr>status = 500,
            body = JObj [(''error'', JStr ''Forecast fetch failed: no route'')]\<rparr>,
           [(41.5, - 71.3, 120)]) \<and>
   api_forecast (stdlib silent) (Some newport) =
     Some (\<lparr>status = 500, body = JObj [(''error'', JStr ''Forecast fetch failed: '')]\<rparr>,
           [(41.5, - 71.3, 120)])"
proof -
  let ?e = "Exn ''OpenMeteoConnectionError'' ''no route''"
  have a: "run (fetch_openmeteo (stdlib (refuses ?e)) 41.5 (- 71.3) 120) (Some 30) = Some (Inl ?e)"
    by (simp add: run_fetch_cases stdlib_def refuses_def)
  have b: "run (fetch_openmeteo (stdlib silent) 41.5 (- 71.3) 120) (Some 30) = Some (Inl timeout_error)"
    by (simp add: run_fetch_cases stdlib_def silent_def)
  show ?thesis
    using fetch_failure_is_500 [OF parse_newport a] fetch_failure_is_500 [OF parse_newport b]
    by (simp add: timeout_error_def)
qed

section \<open>Normalisation of the timestamps\<close>

text \<open>
  Claim C2, as the specification states it: a raw timestamp that is a \<^verbatim>\<open>datetime\<close> is kept,
  any other is parsed from its string with a trailing \<^verbatim>\<open>Z\<close> read as a zero offset, and
  the epoch stands in for what does not parse. The code replaces every \<^verbatim>\<open>Z\<close> of the
  string, not only a trailing one: \<^verbatim>\<open>2024-01-01Z00:00:00\<close>, which \<^verbatim>\<open>fromisoformat\<close> accepts as it
  is (any character may separate date and time), becomes \<^verbatim>\<open>2024-01-01+00:0000:00:00\<close>,
  does not parse, and is replaced by the epoch.
\<close>

theorem trailing_Z_only_counterexample:
  "normalize_time (stdlib silent) (Unstructured ''2024-01-01Z00:00:00'') = epoch \<and>
   spec_normalize_time (stdlib silent) (Unstructured ''2024-01-01Z00:00:00'') = at_day 1 \<and>
   epoch \<noteq> at_day 1"
proof -
  have a: "parse_iso_basic ''2024-01-01+00:0000:00:00'' = None"
    by code_simp
  have b: "parse_iso_basic ''2024-01-01Z00:00:00'' = Some (at_day 1)"
    by code_simp
  have c: "epoch \<noteq> at_day 1"
    by (simp add: epoch_def at_day_def)
  have "normalize_time (stdlib silent) (Unstructured ''2024-01-01Z00:00:00'') = epoch"
    by (simp add: normalize_time_def stdlib_def a)
  moreover have "spec_normalize_time (stdlib silent) (Unstructured ''2024-01-01Z00:00:00'') =
      at_day 1"
    by (simp add: spec_normalize_time_def trailing_Z_def stdlib_def b)
  ultimately show ?thesis
    using c by (intro conjI)
qed

text \<open>
  Claim C2, amended. A raw timestamp that is a \<^verbatim>\<open>datetime\<close> is kept as it is. Any other
  is parsed from its string form in which every \<^verbatim>\<open>Z\<close> has been replaced by \<^verbatim>\<open>+00:00\<close>, and
  when that does not parse the result is \<^verbatim>\<open>datetime.fromtimestamp(0)\<close>, the Unix epoch. On a
  string with no \<^verbatim>\<open>Z\<close> before its last character this is the normalisation of the
  specification: a trailing \<^verbatim>\<open>Z\<close> is read as a zero UTC offset.
\<close>

theorem normalize_time_replaces_every_Z:
  "normalize_time E (Structured d) = d \<and>
   normalize_time E (Unstructured s) =
     (case fromisoformat E (replace CHR ''Z'' ''+00:00'' s) of
        Some d' \<Rightarrow> d'
      | None \<Rightarrow> fromtimestamp0 E) \<and>
   (CHR ''Z'' \<notin> set (butlast s) \<longrightarrow>
      normalize_time E (Unstructured s) = spec_normalize_time E (Unstructured s))"
  by (simp add: normalize_time_def spec_normalize_time_def replace_trailing)

theorem normalize_time_replaces_every_Z_witness:
  "CHR ''Z'' \<notin> set (butlast ''2024-01-01T00:00:00Z'') \<and>
   normalize_time (stdlib silent) (Unstructured ''2024-01-01T00:00:00Z'') = midnight_utc \<and>
   normalize_time (stdlib silent) (Unstructured ''not-a-date'') = epoch \<and>
   normalize_time (stdlib silent) (Structured (at_day 2)) = at_day 2"
proof -
  note utc = normalize_time_replaces_every_Z
    [of "stdlib silent" "at_day 2" "''2024-01-01T00:00:00Z''"]
  note bad = normalize_time_replaces_every_Z [of "stdlib silent" "at_day 2" "''not-a-date''"]
  have z: "CHR ''Z'' \<notin> set (butlast ''2024-01-01T00:00:00Z'')"
    by simp
  have p: "parse_iso_basic ''2024-01-01T00:00:00+00:00'' = Some midnight_utc"
    by code_simp
  have q: "parse_iso_basic ''not-a-date'' = None"
    by code_simp
  have "spec_normalize_time (stdlib silent) (Unstructured ''2024-01-01T00:00:00Z'') =
      midnight_utc"
    by (simp add: spec_normalize_time_def trailing_Z_def p stdlib_def)
  with utc [THEN conjunct2, THEN conjunct2, rule_format, OF z]
  have a: "normalize_time (stdlib silent) (Unstructured ''2024-01-01T00:00:00Z'') =
      midnight_utc"
    by (rule trans)
  have b: "normalize_time (stdlib silent) (Unstructured ''not-a-date'') = epoch"
    unfolding bad [THEN conjunct2, THEN conjunct1] by (simp add: stdlib_def q)
  from z a b utc [THEN conjunct1] show ?thesis
    by (intro conjI)
qed

section \<open>The arrays of a successful response\<close>

text \<open>
  Claim C3. For every successful response to a request, where the forecast fetched
  for the request's latitude and longitude has aligned arrays (as the specification
  assumes of the remote service), the four arrays \<^verbatim>\<open>time\<close>, \<^verbatim>\<open>wind_dir\<close>, \<^verbatim>\<open>wind_speed\<close>
  and \<^verbatim>\<open>wind_gust\<close> have one length, \<open>min(120, remote length)\<close>, which is at most 120.
\<close>

theorem arrays_have_one_length:
  assumes "parse_request E b = Inr (lat, lon, hrs)"
    and "forecast E lat lon = Finishes d (Inr h)"
    and "api_forecast E b = Some (r, c)" and "status r = 200"
    and "aligned h"
  shows "array_len r ''time'' = Some (min 120 (length (time h))) \<and>
         array_len r ''wind_dir'' = Some (min 120 (length (time h))) \<and>
         array_len r ''wind_speed'' = Some (min 120 (length (time h))) \<and>
         array_len r ''wind_gust'' = Some (min 120 (length (time h))) \<and>
         min 120 (length (time h)) \<le> 120"
proof -
  have r: "r = forecast_ok E lat lon 120 (build_series E h 120)"
    using successful_response [OF assms(1-4)] by simp
  show ?thesis
    using assms(5)
    by (simp add: r forecast_ok_arrays build_series_take min.commute aligned_def)
qed

theorem arrays_have_one_length_witness:
  "\<exists>r c. api_forecast (stdlib (answers two_days)) (Some newport) = Some (r, c) \<and>
     status r = 200 \<and> aligned two_days \<and>
     array_len r ''time'' = Some 2 \<and> array_len r ''wind_dir'' = Some 2 \<and>
     array_len r ''wind_speed'' = Some 2 \<and> array_len r ''wind_gust'' = Some 2"
proof -
  let ?E = "stdlib (answers two_days)"
  let ?r = "forecast_ok ?E 41.5 (- 71.3) 120 (build_series ?E two_days 120)"
  have f: "forecast ?E lat lon = Finishes 1 (Inr two_days)" for lat lon
    by (simp add: stdlib_def answers_def)
  have a: "api_forecast ?E (Some newport) = Some (?r, [(41.5, - 71.3, 120)])"
    by (simp add: api_forecast_valid [OF parse_newport] f)
  have s: "status ?r = 200"
    by (simp add: forecast_ok_def)
  have al: "aligned two_days"
    by (simp add: aligned_def two_days_def)
  have "min 120 (length (time two_days)) = 2"
    by (simp add: two_days_def)
  with arrays_have_one_length [OF parse_newport f a s al]
  have "array_len ?r ''time'' = Some 2 \<and> array_len ?r ''wind_dir'' = Some 2 \<and>
     array_len ?r ''wind_speed'' = Some 2 \<and> array_len ?r ''wind_gust'' = Some 2"
    by simp
  with a s al show ?thesis by blast
qed

text \<open>
  Claim C4, as the specification states it: the \<^verbatim>\<open>time\<close> array of every successful
  response is non-decreasing. A raw timestamp that does not parse becomes the epoch,
  in the place where it stood, and nothing sorts the array.
\<close>

theorem time_order_counterexample:
  "(case api_forecast (stdlib (answers with_bad_stamp)) (Some newport) of
      None \<Rightarrow> False
    | Some (r, c) \<Rightarrow>
        status r = 200 \<and>
        time_strings r = Some [''2024-01-02T00:00:00'', ''1970-01-01T00:00:00''] \<and>
        \<not> sorted_wrt (\<le>) [''2024-01-02T00:00:00'', ''1970-01-01T00:00:00''])"
proof -
  let ?E = "stdlib (answers with_bad_stamp)"
  have f: "forecast ?E lat lon = Finishes 1 (Inr with_bad_stamp)" for lat lon
    by (simp add: stdlib_def answers_def)
  have a: "api_forecast ?E (Some newport) =
      Some (forecast_ok ?E 41.5 (- 71.3) 120 (build_series ?E with_bad_stamp 120),
            [(41.5, - 71.3, 120)])"
    by (simp add: api_forecast_valid [OF parse_newport] f)
  have p1: "parse_iso_basic ''2024-01-02T00:00:00'' = Some (at_day 2)"
    and p2: "parse_iso_basic ''not-a-date'' = None"
    by code_simp+
  have i1: "iso8601 (at_day 2) = ''2024-01-02T00:00:00''"
    and i2: "iso8601 epoch = ''1970-01-01T00:00:00''"
    by code_simp+
  have n: "map (iso8601 \<circ> normalize_time ?E) (take 120 (time with_bad_stamp)) =
      [''2024-01-02T00:00:00'', ''1970-01-01T00:00:00'']"
    by (simp add: with_bad_stamp_def normalize_time_def stdlib_def p1 p2 i1 i2)
  have iso: "isoformat ?E = iso8601"
    by (simp add: stdlib_def)
  have t: "time_strings (forecast_ok ?E 41.5 (- 71.3) 120 (build_series ?E with_bad_stamp 120)) =
      Some [''2024-01-02T00:00:00'', ''1970-01-01T00:00:00'']"
    by (simp add: forecast_ok_time_strings build_series_take iso n)
  have s: "status (forecast_ok ?E 41.5 (- 71.3) 120 (build_series ?E with_bad_stamp 120)) = 200"
    by (simp add: forecast_ok_def)
  have u: "\<not> sorted_wrt (\<le>) [''2024-01-02T00:00:00'', ''1970-01-01T00:00:00'']"
    by simp
  show ?thesis
    unfolding a using s t u by simp
qed

text \<open>
  Claim C4, amended. The \<^verbatim>\<open>time\<close> array of every successful response is the first 120
  timestamps of the forecast fetched for the request's latitude and longitude, each
  normalised and serialised, in the order of the remote array. When none of them is
  replaced by the epoch (each is a \<^verbatim>\<open>datetime\<close> or a string that parses), and the
  \<^verbatim>\<open>datetime\<close> values they stand for have one UTC offset (or none) and are in
  non-decreasing order, the array of their ISO 8601 strings is non-decreasing.
\<close>

theorem time_order_follows_remote:
  assumes "parse_request E b = Inr (lat, lon, hrs)"
    and "forecast E lat lon = Finishes d (Inr h)"
    and "api_forecast E b = Some (r, c)" and "status r = 200"
  shows "time_strings r =
           Some (map (isoformat E) (map (normalize_time E) (take 120 (time h)))) \<and>
         (isoformat E = iso8601 \<and> map (instant E) (take 120 (time h)) = map Some ds \<and>
          list_all valid_datetime ds \<and> sorted_wrt chrono ds \<longrightarrow>
            time_strings r = Some (map iso8601 ds) \<and> sorted_wrt (\<le>) (map iso8601 ds))"
proof -
  have r: "r = forecast_ok E lat lon 120 (build_series E h 120)"
    using successful_response [OF assms] by simp
  have t: "time_strings r =
      Some (map (isoformat E) (map (normalize_time E) (take 120 (time h))))"
    by (simp add: r forecast_ok_time_strings build_series_take)
  have "time_strings r = Some (map iso8601 ds) \<and> sorted_wrt (\<le>) (map iso8601 ds)"
    if iso: "isoformat E = iso8601"
      and ds: "map (instant E) (take 120 (time h)) = map Some ds"
      and valid: "list_all valid_datetime ds" and le: "sorted_wrt chrono ds"
  proof
    show "time_strings r = Some (map iso8601 ds)"
      by (simp only: t iso instants_normalize [OF ds])
    show "sorted_wrt (\<le>) (map iso8601 ds)"
      using valid le by (rule sorted_iso8601)
  qed
  with t show ?thesis by blast
qed

theorem time_order_follows_remote_witness:
  "\<exists>r c. api_forecast (stdlib (answers string_then_datetime)) (Some newport) = Some (r, c) \<and>
     status r = 200 \<and>
     map (instant (stdlib (answers string_then_datetime))) (take 120 (time string_then_datetime)) =
       map Some [at_day 2, at_day 3] \<and>
     list_all valid_datetime [at_day 2, at_day 3] \<and> sorted_wrt chrono [at_day 2, at_day 3] \<and>
     time_strings r = Some [''2024-01-02T00:00:00'', ''2024-01-03T00:00:00''] \<and>
     sorted_wrt (\<le>) [''2024-01-02T00:00:00'', ''2024-01-03T00:00:00'']"
proof -
  let ?E = "stdlib (answers string_then_datetime)"
  let ?r = "forecast_ok ?E 41.5 (- 71.3) 120 (build_series ?E string_then_datetime 120)"
  let ?ds = "[at_day 2, at_day 3]"
  have f: "forecast ?E lat lon = Finishes 1 (Inr string_then_datetime)" for lat lon
    by (simp add: stdlib_def answers_def)
  have a: "api_forecast ?E (Some newport) = Some (?r, [(41.5, - 71.3, 120)])"
    by (simp add: api_forecast_valid [OF parse_newport] f)
  have s: "status ?r = 200"
    by (simp add: forecast_ok_def)
  have iso: "isoformat ?E = iso8601"
    by (simp add: stdlib_def)
  have p: "parse_iso_basic ''2024-01-02T00:00:00'' = Some (at_day 2)"
    by code_simp
  have i: "iso8601 (at_day 2) = ''2024-01-02T00:00:00''"
      "iso8601 (at_day 3) = ''2024-01-03T00:00:00''"
    by code_simp+
  have raw: "map (instant ?E) (take 120 (time string_then_datetime)) = map Some ?ds"
    by (simp add: string_then_datetime_def instant_def stdlib_def p)
  have valid: "list_all valid_datetime ?ds"
    by (simp add: valid_datetime_def at_day_def days_in_month_def)
  have le: "sorted_wrt chrono ?ds"
    by (simp add: chrono_def dt_key_def at_day_def)
  from time_order_follows_remote [OF parse_newport f a s, of ?ds] iso raw valid le
  have "time_strings ?r = Some (map iso8601 ?ds) \<and> sorted_wrt (\<le>) (map iso8601 ?ds)"
    by blast
  then have "time_strings ?r = Some [''2024-01-02T00:00:00'', ''2024-01-03T00:00:00''] \<and>
      sorted_wrt (\<le>) [''2024-01-02T00:00:00'', ''2024-01-03T00:00:00'']"
    by (simp only: i list.map)
  with a s raw valid le show ?thesis by blast
qed

section \<open>The chart renderer\<close>

text \<open>
  Claim C8. When the renderer is called with an empty \<^verbatim>\<open>wind_speed\<close> or \<^verbatim>\<open>wind_gust\<close>
  sequence, computing the minimum or the maximum raises NumPy's error for an empty
  array, which the renderer does not handle. With at least one data point in both
  sequences that error is not raised.
\<close>

theorem empty_series_raises:
  "(wind_speed s = [] \<or> wind_gust s = [] \<longrightarrow>
      render_png F s out_path files = Inl ZeroSizeReduction) \<and>
   (wind_speed s \<noteq> [] \<and> wind_gust s \<noteq> [] \<longrightarrow>
      render_png F s out_path files \<noteq> Inl ZeroSizeReduction)"
  using draw_empty [of s F] draw_nonempty [of s F]
  by (auto simp add: render_png_def split: sum.splits)

theorem empty_series_raises_witness:
  "render_png exact \<lparr>time_dt = [], wind_dir = [], wind_speed = [], wind_gust = []\<rparr>
      ''static/figure.png'' Map.empty = Inl ZeroSizeReduction \<and>
   render_png exact one_point ''static/figure.png'' Map.empty \<noteq> Inl ZeroSizeReduction"
  using empty_series_raises
      [of "\<lparr>time_dt = [], wind_dir = [], wind_speed = [], wind_gust = []\<rparr>"
        exact "''static/figure.png''" Map.empty]
    empty_series_raises [of one_point exact "''static/figure.png''" Map.empty]
  by (simp add: one_point_def)

text \<open>
  Claim C9, as the specification states it: for every non-empty series the y-axis
  limits of the chart are \<open>(0, max(wind_gust) + 3)\<close>. For a series whose smallest speed
  is above its largest gust the colour normalisation has its bounds in the wrong
  order, \<^verbatim>\<open>normalize(wind_gusts)\<close> raises among the arguments of \<^verbatim>\<open>ax.bar\<close>, and no limit
  is set. For a series that starts less than half an hour after the first \<^verbatim>\<open>datetime\<close>
  the lower limit of the x-axis cannot be computed. In both cases no chart is saved.
\<close>

theorem renderer_raises_counterexample:
  "render_png exact gust_below_speed ''static/figure.png'' Map.empty = Inl NormalizeError \<and>
   render_png exact at_datetime_min ''static/figure.png'' Map.empty = Inl DateOverflow"
proof
  show "render_png exact gust_below_speed ''static/figure.png'' Map.empty = Inl NormalizeError"
    by (simp add: render_png_def draw_def np_sub_def normalize_call_def gust_below_speed_def
        exact_def)
  show "render_png exact at_datetime_min ''static/figure.png'' Map.empty = Inl DateOverflow"
    by (simp add: render_png_def draw_def np_sub_def normalize_call_def bar_call_def
        broadcast_len_def half_hour_before_overflows_def dt_key_def at_datetime_min_def
        exact_def)
qed

text \<open>
  Claim C9, amended. For every non-empty series (four sequences of one length, at
  least one data point) whose smallest wind speed does not exceed its largest gust
  and whose first and last timestamps lie half an hour inside the range of
  \<^verbatim>\<open>datetime\<close>, the renderer saves a chart whose y-axis limits are
  \<open>(0, max(wind_gust) + 3)\<close>, the sum being the float sum. For the series of one point
  with speed 10 and gust 15 the upper limit is 18.
\<close>

theorem ylim_is_max_gust_plus_3:
  assumes "time_dt s \<noteq> []"
    and "length (wind_dir s) = length (time_dt s)"
    and "length (wind_speed s) = length (time_dt s)"
    and "length (wind_gust s) = length (time_dt s)"
    and "Min (set (wind_speed s)) \<le> Max (set (wind_gust s))"
    and "\<not> half_hour_before_overflows (hd (time_dt s))"
    and "\<not> half_hour_after_overflows (last (time_dt s))"
  shows "\<exists>c. render_png F s out_path files = Inr (files(out_path \<mapsto> c)) \<and>
           ylim c = (0, fadd F (Max (set (wind_gust s))) 3)"
proof -
  from assms have g: "wind_gust s \<noteq> []" and w: "wind_speed s \<noteq> []" and d: "wind_dir s \<noteq> []"
    by auto
  obtain t0 ts where t: "time_dt s = t0 # ts"
    using assms(1) by (cases "time_dt s") auto
  have first: "\<not> half_hour_before_overflows t0"
    using assms(6) t by simp
  have final: "\<not> half_hour_after_overflows (last (t0 # ts))"
    using assms(7) t by simp
  have bar: "bar_call (length (time_dt s)) (length (wind_speed s)) (length (wind_speed s))
      (length (wind_gust s)) = Inr (length (time_dt s))"
    using assms by (simp add: bar_call_def broadcast_len_def)
  have "\<exists>c. draw F s = Inr c \<and> ylim c = (0, fadd F (Max (set (wind_gust s))) 3)"
    using assms(3-5) t d bar first final
    by (simp add: draw_def Let_def np_max_Max [OF g] np_min_Min [OF w] np_sub_def
        normalize_call_def del: last.simps)
  then show ?thesis
    by (auto simp add: render_png_def)
qed

theorem ylim_is_max_gust_plus_3_witness:
  "\<exists>c. render_png exact one_point ''static/figure.png'' Map.empty =
          Inr [''static/figure.png'' \<mapsto> c] \<and> ylim c = (0, 18)"
proof -
  have "time_dt one_point \<noteq> []"
    and "length (wind_dir one_point) = length (time_dt one_point)"
    and "length (wind_speed one_point) = length (time_dt one_point)"
    and "length (wind_gust one_point) = length (time_dt one_point)"
    and "Min (set (wind_speed one_point)) \<le> Max (set (wind_gust one_point))"
    and "\<not> half_hour_before_overflows (hd (time_dt one_point))"
    and "\<not> half_hour_after_overflows (last (time_dt one_point))"
    by (simp_all add: one_point_def half_hour_before_overflows_def
        half_hour_after_overflows_def dt_key_def at_day_def)
  from ylim_is_max_gust_plus_3 [OF this, of exact "''static/figure.png''" Map.empty]
  show ?thesis
    by (simp add: one_point_def exact_def)
qed

end
